theory Spec2Isabelle
  imports Main
begin

section \<open>Python strings\<close>

text \<open>
  A Python \<open>str\<close> is a sequence of Unicode code points, so a string is a list of
  code points and a literal of the scripts is written \<open>py ''...''\<close>.
\<close>

type_synonym pystr = "nat list"

definition py :: "string \<Rightarrow> pystr" where
  "py s = map of_char s"

text \<open>
  The code points that \<open>str.isspace\<close> accepts; \<open>str.strip\<close>, \<open>str.lstrip\<close> and
  \<open>str.rstrip\<close> without an argument remove exactly these.
\<close>

definition py_whitespace :: "nat list" where
  "py_whitespace =
     [9, 10, 11, 12, 13, 28, 29, 30, 31, 32, 133, 160, 5760,
      8192, 8193, 8194, 8195, 8196, 8197, 8198, 8199, 8200, 8201, 8202,
      8232, 8233, 8239, 8287, 12288]"

definition isspace :: "nat \<Rightarrow> bool" where
  "isspace c = (c \<in> set py_whitespace)"

definition lstrip :: "pystr \<Rightarrow> pystr" where
  "lstrip s = dropWhile isspace s"

definition rstrip :: "pystr \<Rightarrow> pystr" where
  "rstrip s = rev (dropWhile isspace (rev s))"

definition strip :: "pystr \<Rightarrow> pystr" where
  "strip s = rstrip (lstrip s)"

definition endswith :: "pystr \<Rightarrow> pystr \<Rightarrow> bool" where
  "endswith s suffix =
     (length suffix \<le> length s \<and> drop (length s - length suffix) s = suffix)"

text \<open>\<open>sub in s\<close> on two strings: \<open>sub\<close> occurs in \<open>s\<close> at some offset.\<close>

definition str_contains :: "pystr \<Rightarrow> pystr \<Rightarrow> bool" where
  "str_contains s sub =
     list_ex (\<lambda>i. take (length sub) (drop i s) = sub) [0 ..< Suc (length s)]"


section \<open>The Admin stop predicate (autogen\_groupchat.py, line 27)\<close>

text \<open>
  \<^verbatim>\<open>is_termination_msg = lambda x: x.get("content", "").rstrip().endswith("TERMINATE")\<close>

  The argument is a message dictionary. The value under \<open>content\<close> need not be a
  string (a message may carry \<open>None\<close>); \<open>rstrip\<close> exists on strings only, so any other
  value raises \<open>AttributeError\<close>.
\<close>

datatype pyval = PyNone | PyStr pystr | PyInt int

datatype py_exn = AttributeError | TypeError | JSONDecodeError | ConnectionError

definition dict_get :: "(pystr \<rightharpoonup> pyval) \<Rightarrow> pystr \<Rightarrow> pyval \<Rightarrow> pyval" where
  "dict_get d k dflt = (case d k of None \<Rightarrow> dflt | Some v \<Rightarrow> v)"

definition is_termination_msg :: "(pystr \<rightharpoonup> pyval) \<Rightarrow> py_exn + bool" where
  "is_termination_msg x =
     (case dict_get x (py ''content'') (PyStr []) of
        PyStr s \<Rightarrow> Inr (endswith (rstrip s) (py ''TERMINATE''))
      | _ \<Rightarrow> Inl AttributeError)"


section \<open>The front-end Submit handler (streamlit\_frontend.py, lines 20--35)\<close>

record payload =
  model_name :: pystr
  model_provider :: pystr
  system_prompt :: pystr
  messages :: "pystr list"
  allow_search :: bool

text \<open>
  The parsed JSON body of a response. An object is the association list of its
  (distinct) keys. The value of a number plays no role in the handler.
\<close>

datatype json =
    JNull
  | JBool bool
  | JNum int
  | JStr pystr
  | JList "json list"
  | JObj "(pystr \<times> json) list"

text \<open>\<open>body = None\<close>: the body is not JSON, and \<open>response.json()\<close> raises.\<close>

record response =
  status_code :: int
  body :: "json option"

text \<open>
  What a run of the handler does that the user or the network can see, in order:
  the call of \<open>requests.post\<close>, \<open>st.error\<close>, \<open>st.subheader\<close>, \<open>st.markdown\<close>.
\<close>

datatype ui_event =
    Requested pystr payload
  | StError json
  | StSubheader pystr
  | StMarkdown json

definition API_URL :: pystr where
  "API_URL = py ''http://127.0.0.1:1200/chat''"

definition provider :: pystr where
  "provider = py ''Groq''"

text \<open>\<open>"error" in response_data\<close>: key test on a dict, membership on a list,
  substring test on a string, \<open>TypeError\<close> on anything else.\<close>

fun error_in :: "json \<Rightarrow> py_exn + bool" where
  "error_in (JObj kvs) = Inr (py ''error'' \<in> set (map fst kvs))"
| "error_in (JList xs) = Inr (JStr (py ''error'') \<in> set xs)"
| "error_in (JStr s) = Inr (str_contains s (py ''error''))"
| "error_in _ = Inl TypeError"

text \<open>\<open>response_data["error"]\<close>, reached only when the test above held: a dict has
  the key; a list or a string is not indexed by a string.\<close>

fun get_error :: "json \<Rightarrow> py_exn + json" where
  "get_error (JObj kvs) =
     (case map_of kvs (py ''error'') of Some v \<Rightarrow> Inr v | None \<Rightarrow> Inl TypeError)"
| "get_error _ = Inl TypeError"

text \<open>
  The handler returns what it did and the exception that ended it, if one did.
  \<open>post\<close> is the remote endpoint behind \<open>requests.post\<close>: it answers or raises
  (the endpoint is unreachable). \<open>pressed\<close> is the value of \<open>st.button("Submit")\<close>.
\<close>

definition submit ::
  "(pystr \<Rightarrow> payload \<Rightarrow> py_exn + response) \<Rightarrow> bool \<Rightarrow> pystr \<Rightarrow> pystr \<Rightarrow> bool \<Rightarrow> pystr
     \<Rightarrow> ui_event list \<times> py_exn option" where
  "submit post pressed selected_model system_prompt' allow_web_search user_query =
     (if pressed then
        if strip user_query \<noteq> [] then
          let pl = \<lparr>model_name = selected_model, model_provider = provider,
                    system_prompt = system_prompt', messages = [user_query],
                    allow_search = allow_web_search\<rparr>
          in case post API_URL pl of
               Inl e \<Rightarrow> ([Requested API_URL pl], Some e)
             | Inr r \<Rightarrow>
                 if status_code r = 200 then
                   (case body r of
                      None \<Rightarrow> ([Requested API_URL pl], Some JSONDecodeError)
                    | Some response_data \<Rightarrow>
                        (case error_in response_data of
                           Inl e \<Rightarrow> ([Requested API_URL pl], Some e)
                         | Inr True \<Rightarrow>
                             (case get_error response_data of
                                Inl e \<Rightarrow> ([Requested API_URL pl], Some e)
                              | Inr v \<Rightarrow> ([Requested API_URL pl, StError v], None))
                         | Inr False \<Rightarrow>
                             ([Requested API_URL pl, StSubheader (py ''Agent Output''),
                               StMarkdown response_data], None)))
                 else ([Requested API_URL pl], None)
        else ([], None)
      else ([], None))"

definition is_request :: "ui_event \<Rightarrow> bool" where
  "is_request e = (case e of Requested _ _ \<Rightarrow> True | _ \<Rightarrow> False)"

definition is_display :: "ui_event \<Rightarrow> bool" where
  "is_display e = (case e of Requested _ _ \<Rightarrow> False | _ \<Rightarrow> True)"


section \<open>Start-up of the crew scripts\<close>

text \<open>
  The environment after \<open>load_dotenv()\<close> is a map from variable names to values;
  \<open>os.getenv\<close> and \<open>os.environ.get\<close> return \<open>None\<close> for a variable that is not
  set. A script is modelled by what it does in order: what it prints, whether it
  exits, and what it asks of the imported framework (objects built, the run started).
  The framework calls themselves are opaque.
\<close>

type_synonym environ = "pystr \<rightharpoonup> pystr"

datatype effect =
    Printed pystr
  | Exited
  | BuiltLLM pystr
  | BuiltTool pystr
  | BuiltAgent pystr
  | BuiltTask pystr
  | BuiltCrew "pystr list"
  | KickedOff

definition getenv :: "environ \<Rightarrow> pystr \<Rightarrow> pystr option" where
  "getenv env k = env k"

text \<open>Truth value of \<open>os.getenv(k)\<close>: \<open>None\<close> and the empty string are false.\<close>

definition truthy :: "pystr option \<Rightarrow> bool" where
  "truthy v = (case v of None \<Rightarrow> False | Some s \<Rightarrow> s \<noteq> [])"

text \<open>
  crewai\_toolusage.py: lines 19--22 check both keys and exit; otherwise the agent,
  the task and the crew are built and \<open>kickoff\<close> runs. \<open>result\<close> is the text of
  what \<open>kickoff\<close> returned, as the f-string of line 74 formats it. The code point
  10 is the newline written \<^verbatim>\<open>\n\<close> in lines 71, 73 and 74.
\<close>

definition crewai_toolusage :: "environ \<Rightarrow> pystr \<Rightarrow> effect list" where
  "crewai_toolusage env result =
     (if \<not> truthy (getenv env (py ''TAVILY_API_KEY'')) \<or> \<not> truthy (getenv env (py ''GROQ_API_KEY''))
      then [Printed (py ''FATAL ERROR: Please set both TAVILY_API_KEY and GROQ_API_KEY environment variables.''),
            Exited]
      else [BuiltLLM (py ''groq/llama-3.1-8b-instant''),
            BuiltTool (py ''TavilySearchTool''),
            BuiltAgent (py ''Simple Fact Checker''),
            BuiltTask (py ''Simple Fact Checker''),
            BuiltCrew [py ''Simple Fact Checker''],
            Printed (py ''--- Starting Single-Agent Crew Execution (Powered by Groq) ---''),
            Printed (py ''The Researcher will now use the Tavily Search tool to gather information...''),
            KickedOff,
            Printed ([10, 10] @ py ''################################''),
            Printed (py ''## CREW EXECUTION FINISHED ##''),
            Printed (py ''################################'' @ [10]),
            Printed (py ''Final Research Summary:'' @ [10, 10] @ result)])"

text \<open>
  crewai\_agent.py: line 8 reads \<open>GROQ_API_KEY\<close> into a variable that nothing uses;
  no line tests it, so the script does the same whatever the environment holds.
  \<open>result\<close> is the text of what \<open>kickoff\<close> returned, as line 57 prints it.
\<close>

definition crewai_agent :: "environ \<Rightarrow> pystr \<Rightarrow> effect list" where
  "crewai_agent env result =
     (let GROQ_API_KEY = getenv env (py ''GROQ_API_KEY'')
      in [BuiltLLM (py ''groq/llama-3.1-8b-instant''),
          BuiltAgent (py ''Content Planner''),
          BuiltAgent (py ''Content Writer''),
          BuiltTask (py ''Content Planner''),
          BuiltTask (py ''Content Writer''),
          BuiltCrew [py ''Content Planner'', py ''Content Writer''],
          KickedOff,
          Printed result])"

text \<open>A turn can run only once the framework has been asked to start.\<close>

definition starts_run :: "effect list \<Rightarrow> bool" where
  "starts_run es = (KickedOff \<in> set es)"


section \<open>Trimming and suffix test\<close>

lemma endswith_iff: "endswith s t \<longleftrightarrow> (\<exists>pre. s = pre @ t)"
proof
  assume "endswith s t"
  then have "s = take (length s - length t) s @ t"
    unfolding endswith_def by (metis append_take_drop_id)
  then show "\<exists>pre. s = pre @ t" ..
next
  assume "\<exists>pre. s = pre @ t"
  then show "endswith s t"
    unfolding endswith_def by auto
qed

lemma rstrip_split: "\<exists>ws. s = rstrip s @ ws \<and> (\<forall>c\<in>set ws. isspace c)"
proof -
  let ?ws = "rev (takeWhile isspace (rev s))"
  have "rev (takeWhile isspace (rev s) @ dropWhile isspace (rev s)) = s"
    by (simp only: takeWhile_dropWhile_id rev_rev_ident)
  then have "rev (dropWhile isspace (rev s)) @ ?ws = s"
    by (simp only: rev_append)
  then have "s = rstrip s @ ?ws"
    by (simp only: rstrip_def)
  moreover have "\<forall>c\<in>set ?ws. isspace c"
    by (auto dest: set_takeWhileD)
  ultimately show ?thesis by blast
qed

lemma rstrip_append_spaces:
  assumes "\<forall>c\<in>set ws. isspace c"
  shows "rstrip (u @ ws) = rstrip u"
proof -
  have "\<And>x. x \<in> set (rev ws) \<Longrightarrow> isspace x"
    using assms by simp
  then have "dropWhile isspace (rev ws @ rev u) = dropWhile isspace (rev u)"
    by (rule dropWhile_append2)
  then show ?thesis
    by (simp add: rstrip_def)
qed

lemma rstrip_keeps:
  assumes "t \<noteq> []" and "\<not> isspace (last t)"
  shows "rstrip (pre @ t) = pre @ t"
proof -
  from assms(1) obtain b x where t: "t = b @ [x]"
    by (metis rev_exhaust)
  with assms(2) have "\<not> isspace x" by simp
  then show ?thesis by (simp add: t rstrip_def)
qed

lemma rstrip_endswith_iff:
  assumes "t \<noteq> []" and "\<not> isspace (last t)"
  shows "endswith (rstrip s) t \<longleftrightarrow> (\<exists>pre ws. s = pre @ t @ ws \<and> (\<forall>c\<in>set ws. isspace c))"
proof
  assume "endswith (rstrip s) t"
  then obtain pre where pre: "rstrip s = pre @ t"
    by (auto simp: endswith_iff)
  from rstrip_split [of s] obtain ws where "s = rstrip s @ ws" and "\<forall>c\<in>set ws. isspace c"
    by blast
  with pre have "s = pre @ t @ ws \<and> (\<forall>c\<in>set ws. isspace c)" by simp
  then show "\<exists>pre ws. s = pre @ t @ ws \<and> (\<forall>c\<in>set ws. isspace c)" by blast
next
  assume "\<exists>pre ws. s = pre @ t @ ws \<and> (\<forall>c\<in>set ws. isspace c)"
  then obtain pre ws where s: "s = (pre @ t) @ ws" and ws: "\<forall>c\<in>set ws. isspace c"
    by auto
  have "rstrip s = rstrip (pre @ t)"
    unfolding s using ws by (rule rstrip_append_spaces)
  also have "\<dots> = pre @ t"
    using assms by (rule rstrip_keeps)
  finally have "rstrip s = pre @ t" .
  then show "endswith (rstrip s) t"
    by (auto simp: endswith_iff)
qed

lemma rstrip_empty_iff: "rstrip s = [] \<longleftrightarrow> (\<forall>c\<in>set s. isspace c)"
  by (simp add: rstrip_def)

lemma strip_empty_iff: "strip s = [] \<longleftrightarrow> (\<forall>c\<in>set s. isspace c)"
proof
  assume "strip s = []"
  then have all: "\<forall>c\<in>set (dropWhile isspace s). isspace c"
    by (simp add: strip_def lstrip_def rstrip_empty_iff)
  have "dropWhile isspace s = []"
  proof (rule ccontr)
    assume ne: "dropWhile isspace s \<noteq> []"
    then have "\<not> isspace (hd (dropWhile isspace s))"
      by (rule hd_dropWhile)
    moreover from ne have "hd (dropWhile isspace s) \<in> set (dropWhile isspace s)"
      by simp
    ultimately show False using all by blast
  qed
  then show "\<forall>c\<in>set s. isspace c"
    by simp
next
  assume "\<forall>c\<in>set s. isspace c"
  then show "strip s = []"
    by (auto simp: strip_def lstrip_def rstrip_def dest: set_dropWhileD)
qed

lemma TERMINATE_last: "py ''TERMINATE'' \<noteq> [] \<and> \<not> isspace (last (py ''TERMINATE''))"
  by (simp add: py_def isspace_def py_whitespace_def)


section \<open>The stop predicate\<close>

text \<open>
  C2. The Admin stop predicate answers true exactly for a message whose content is
  some text, then the token TERMINATE in upper case, then nothing but whitespace;
  for every other content string it answers false, never raising. A message with no
  content is treated as the empty string and answers false.
\<close>

theorem is_termination_msg_iff:
  "is_termination_msg (m(py ''content'' \<mapsto> PyStr s)) =
     Inr (\<exists>pre ws. s = pre @ py ''TERMINATE'' @ ws \<and> (\<forall>c\<in>set ws. isspace c))
   \<and> (m (py ''content'') = None \<longrightarrow> is_termination_msg m = Inr False)"
proof
  have "endswith (rstrip s) (py ''TERMINATE'') \<longleftrightarrow>
        (\<exists>pre ws. s = pre @ py ''TERMINATE'' @ ws \<and> (\<forall>c\<in>set ws. isspace c))"
    using TERMINATE_last by (intro rstrip_endswith_iff) simp_all
  then show "is_termination_msg (m(py ''content'' \<mapsto> PyStr s)) =
     Inr (\<exists>pre ws. s = pre @ py ''TERMINATE'' @ ws \<and> (\<forall>c\<in>set ws. isspace c))"
    by (simp add: is_termination_msg_def dict_get_def)
next
  show "m (py ''content'') = None \<longrightarrow> is_termination_msg m = Inr False"
    by (simp add: is_termination_msg_def dict_get_def rstrip_def endswith_def py_def)
qed

theorem is_termination_msg_iff_witness:
  "is_termination_msg (Map.empty(py ''content'' \<mapsto> PyStr (py ''Saved. TERMINATE  ''))) = Inr True
   \<and> (\<exists>pre ws. py ''Saved. TERMINATE  '' = pre @ py ''TERMINATE'' @ ws \<and> (\<forall>c\<in>set ws. isspace c))
   \<and> is_termination_msg (Map.empty(py ''content'' \<mapsto> PyStr (py ''terminate''))) = Inr False
   \<and> \<not> (\<exists>pre ws. py ''terminate'' = pre @ py ''TERMINATE'' @ ws \<and> (\<forall>c\<in>set ws. isspace c))
   \<and> Map.empty (py ''content'') = (None :: pyval option)
   \<and> is_termination_msg Map.empty = Inr False"
proof -
  have a: "is_termination_msg (Map.empty(py ''content'' \<mapsto> PyStr (py ''Saved. TERMINATE  ''))) = Inr True"
    by (simp add: is_termination_msg_def dict_get_def rstrip_def endswith_def py_def
        isspace_def py_whitespace_def)
  have b: "is_termination_msg (Map.empty(py ''content'' \<mapsto> PyStr (py ''terminate''))) = Inr False"
    by (simp add: is_termination_msg_def dict_get_def rstrip_def endswith_def py_def
        isspace_def py_whitespace_def)
  from a b is_termination_msg_iff [of Map.empty "py ''Saved. TERMINATE  ''"]
    is_termination_msg_iff [of Map.empty "py ''terminate''"]
  show ?thesis by simp
qed


text \<open>A content that is not a string (\<open>None\<close>, a number) makes the predicate raise.\<close>

lemma is_termination_msg_not_str:
  "is_termination_msg (m(py ''content'' \<mapsto> PyNone)) = Inl AttributeError
   \<and> is_termination_msg (m(py ''content'' \<mapsto> PyInt i)) = Inl AttributeError"
  by (simp add: is_termination_msg_def dict_get_def)


section \<open>The Submit handler\<close>

text \<open>
  C10. When the query is empty or holds only whitespace, pressing Submit sends no
  request and displays nothing, neither output nor error, and raises nothing. A
  request is sent exactly when the button was pressed and the stripped query is
  not empty, that is, when the query has a character that is not whitespace.
\<close>

theorem submit_blank_query:
  "((\<forall>c\<in>set user_query. isspace c) \<longrightarrow>
      submit post pressed selected_model sp allow_web_search user_query = ([], None))
   \<and> ((\<exists>e\<in>set (fst (submit post pressed selected_model sp allow_web_search user_query)).
          is_request e)
        \<longleftrightarrow> pressed \<and> strip user_query \<noteq> [])
   \<and> (strip user_query \<noteq> [] \<longleftrightarrow> (\<exists>c\<in>set user_query. \<not> isspace c))"
proof (intro conjI impI)
  assume "\<forall>c\<in>set user_query. isspace c"
  then have "strip user_query = []"
    by (simp add: strip_empty_iff)
  then show "submit post pressed selected_model sp allow_web_search user_query = ([], None)"
    by (simp add: submit_def)
next
  show "(\<exists>e\<in>set (fst (submit post pressed selected_model sp allow_web_search user_query)).
           is_request e)
        \<longleftrightarrow> pressed \<and> strip user_query \<noteq> []"
    by (auto simp: submit_def Let_def is_request_def
        split: sum.splits option.splits bool.splits if_splits)
next
  show "strip user_query \<noteq> [] \<longleftrightarrow> (\<exists>c\<in>set user_query. \<not> isspace c)"
    by (simp add: strip_empty_iff)
qed

theorem submit_blank_query_witness:
  "isspace 32 \<and> isspace 9 \<and> isspace 10
   \<and> submit (\<lambda>url pl. Inl ConnectionError) True (py ''llama-3.1-8b-instant'') [] False [32, 9, 10]
       = ([], None)
   \<and> strip (py ''hi '') \<noteq> []
   \<and> (\<exists>e\<in>set (fst (submit (\<lambda>url pl. Inl ConnectionError) True (py ''llama-3.1-8b-instant'') []
                        False (py ''hi ''))). is_request e)"
proof -
  have blank: "\<forall>c\<in>set [32, 9, 10]. isspace c"
    by (simp add: isspace_def py_whitespace_def)
  have hi: "strip (py ''hi '') \<noteq> []"
    by (simp add: strip_def lstrip_def rstrip_def py_def isspace_def py_whitespace_def)
  have each: "isspace 32 \<and> isspace 9 \<and> isspace 10"
    by (simp add: isspace_def py_whitespace_def)
  from blank hi each
    submit_blank_query [of "[32, 9, 10]" "\<lambda>url pl. Inl ConnectionError" True
      "py ''llama-3.1-8b-instant''" "[]" False]
    submit_blank_query [of "py ''hi ''" "\<lambda>url pl. Inl ConnectionError" True
      "py ''llama-3.1-8b-instant''" "[]" False]
  show ?thesis by blast
qed

text \<open>
  C6. The handler at an endpoint that answers with status 500, and at one that
  cannot be reached, for the query \<open>hi\<close>: after the request the first displays
  nothing at all (line 29 has no \<open>else\<close>), and the second ends in the uncaught
  \<open>ConnectionError\<close> of \<open>requests.post\<close>: the handler reports nothing itself, and
  what the user then sees is left to the Streamlit runtime. Only a body with
  status 200 that holds the key \<open>error\<close> reaches \<open>st.error\<close>.
\<close>

theorem submit_failure_not_surfaced:
  "submit (\<lambda>url pl. Inr \<lparr>status_code = 500, body = Some (JObj [(py ''detail'', JStr (py ''Internal Server Error''))])\<rparr>)
      True (py ''llama-3.1-8b-instant'') [] False (py ''hi'')
     = ([Requested API_URL
           \<lparr>model_name = py ''llama-3.1-8b-instant'', model_provider = provider, system_prompt = [],
            messages = [py ''hi''], allow_search = False\<rparr>], None)
   \<and> submit (\<lambda>url pl. Inl ConnectionError) True (py ''llama-3.1-8b-instant'') [] False (py ''hi'')
     = ([Requested API_URL
           \<lparr>model_name = py ''llama-3.1-8b-instant'', model_provider = provider, system_prompt = [],
            messages = [py ''hi''], allow_search = False\<rparr>], Some ConnectionError)
   \<and> submit (\<lambda>url pl. Inr \<lparr>status_code = 200, body = Some (JObj [(py ''error'', JStr (py ''Invalid model name''))])\<rparr>)
      True (py ''llama-3.1-8b-instant'') [] False (py ''hi'')
     = ([Requested API_URL
           \<lparr>model_name = py ''llama-3.1-8b-instant'', model_provider = provider, system_prompt = [],
            messages = [py ''hi''], allow_search = False\<rparr>,
         StError (JStr (py ''Invalid model name''))], None)"
proof -
  have hi: "strip (py ''hi'') \<noteq> []"
    by (simp add: strip_def lstrip_def rstrip_def py_def isspace_def py_whitespace_def)
  have key: "py ''error'' \<noteq> py ''detail''"
    by (simp add: py_def)
  from hi key show ?thesis
    by (simp add: submit_def Let_def)
qed

lemma submit_non_success_silent:
  assumes "post API_URL
             \<lparr>model_name = selected_model, model_provider = provider, system_prompt = sp,
              messages = [user_query], allow_search = allow_web_search\<rparr> = Inr r"
    and "status_code r \<noteq> 200"
  shows "\<not> (\<exists>e\<in>set (fst (submit post pressed selected_model sp allow_web_search user_query)).
              is_display e)
         \<and> snd (submit post pressed selected_model sp allow_web_search user_query) = None"
  using assms by (simp add: submit_def Let_def is_display_def)


section \<open>Start-up with a missing credential\<close>

text \<open>
  Where the check exists (crewai\_toolusage.py), a missing or empty key ends the
  script before anything is built or started.
\<close>

lemma crewai_toolusage_fails_fast:
  assumes "\<not> truthy (getenv env (py ''TAVILY_API_KEY'')) \<or> \<not> truthy (getenv env (py ''GROQ_API_KEY''))"
  shows "crewai_toolusage env result =
           [Printed (py ''FATAL ERROR: Please set both TAVILY_API_KEY and GROQ_API_KEY environment variables.''),
            Exited]
         \<and> \<not> starts_run (crewai_toolusage env result)"
  using assms by (auto simp: crewai_toolusage_def starts_run_def)

text \<open>
  C5. With an environment that holds no variable at all, crewai\_agent.py neither
  prints an error nor exits: it goes on to build its agents, tasks and crew and
  hands the run to the framework (\<open>kickoff\<close>), where crewai\_toolusage.py stops.
\<close>

theorem missing_key_not_checked:
  "Exited \<notin> set (crewai_agent Map.empty result)
   \<and> starts_run (crewai_agent Map.empty result)"
  by (simp add: crewai_agent_def starts_run_def)

end
